theory Spec2Isabelle
  imports Complex_Main "HOL-Library.AList"
begin

section \<open>Python values used by the embedding\<close>

text \<open>
  The exceptions the modelled code can raise by itself: a free variable read before it
  is bound, an index out of range, \<^verbatim>\<open>open\<close> on a path that names no file, and a
  method looked up on \<^verbatim>\<open>None\<close>.
\<close>

datatype py_error = NameError | IndexError | FileNotFoundError | AttributeError

text \<open>\<^verbatim>\<open>str\<close> on a Python integer: decimal digits, with a leading minus sign.\<close>

definition digit_char :: "nat \<Rightarrow> char" where
  "digit_char d = ''0123456789'' ! d"

function str_nat :: "nat \<Rightarrow> string" where
  "str_nat n = (if n < 10 then [digit_char n] else str_nat (n div 10) @ [digit_char (n mod 10)])"
  by pat_completeness auto
termination
  by (relation "measure (\<lambda>n. n)") auto

declare str_nat.simps [simp del]

definition str :: "int \<Rightarrow> string" where
  "str i = (if i < 0 then CHR ''-'' # str_nat (nat (- i)) else str_nat (nat i))"

text \<open>
  A Python \<^verbatim>\<open>dict\<close> with string keys is an association list in insertion order.
  \<^verbatim>\<open>d.update(other)\<close> stores the items of \<^verbatim>\<open>other\<close> one after the other.
\<close>

type_synonym joint_dict = "(string \<times> real) list"

definition dict_update :: "joint_dict \<Rightarrow> joint_dict \<Rightarrow> joint_dict" where
  "dict_update d other = fold (\<lambda>(k, v). AList.update k v) other d"


section \<open>The World Model (BulletWorld)\<close>

text \<open>
  The members of the \<^verbatim>\<open>ObjectType\<close> enumeration that the sources name are
  \<^verbatim>\<open>JEROEN_CUP\<close> and \<^verbatim>\<open>BOWL\<close>; the others stand for the type tags of the data
  model (robot, environment, other movable object).
\<close>

datatype ObjectType = JEROEN_CUP | BOWL | ROBOT | ENVIRONMENT | GENERIC_OBJECT

text \<open>
  A BulletWorld \<^verbatim>\<open>Object\<close>: its name, its numeric id, its type, the path of its URDF
  file and what \<^verbatim>\<open>get_position_and_orientation()\<close> returns for it (a position and a
  quaternion, as lists of floats; the floats are only copied, never computed with).
\<close>

record bobject =
  obj_name :: string
  obj_id :: int
  obj_type :: ObjectType
  obj_path :: string
  obj_pose :: "real list \<times> real list"

text \<open>The messages exchanged with the planner; of a \<^verbatim>\<open>MoveResult\<close> the error codes and messages.\<close>

datatype MoveResult = MoveResult "int list" "string list"

datatype PoseStamped = PoseStamped string "real \<times> real \<times> real" "real \<times> real \<times> real \<times> real"
datatype PointStamped = PointStamped string "real \<times> real \<times> real"
datatype QuaternionStamped = QuaternionStamped string "real \<times> real \<times> real \<times> real"
datatype Vector3Stamped = Vector3Stamped string "real \<times> real \<times> real"

section \<open>The remote planning service (GiskardWrapper)\<close>

text \<open>Every call made on \<^verbatim>\<open>giskard_wrapper\<close>, with its arguments.\<close>

datatype giskard_call =
    GetGroupNames
  | ClearWorld
  | AddUrdf string string PoseStamped
  | AddMesh string string PoseStamped
  | RemoveGroup string
  | UpdateGroupPose string PoseStamped
  | SetJointGoal joint_dict
  | SetCartGoal PoseStamped string string
  | SetStraightCartGoal PoseStamped string string
  | SetTranslationGoal PointStamped string string
  | SetStraightTranslationGoal PointStamped string string
  | SetRotationGoal QuaternionStamped string string
  | SetAlignPlanesGoal Vector3Stamped string Vector3Stamped string
  | SetOpenContainerGoal string string
  | SetCloseContainerGoal string string
  | PlanAndExecute
  | AvoidAllCollisions
  | AllowSelfCollision
  | AvoidCollision int string string

text \<open>
  The state of the service as the code can observe it: the group names it lists, and the
  calls it has received so far, oldest first.
\<close>

record giskard =
  group_names :: "string list"
  calls :: "giskard_call list"

text \<open>
  What a call reads from its surroundings: the objects of the current BulletWorld in
  their order, \<^verbatim>\<open>BulletWorld.robot\<close> (\<open>None\<close> when no robot is loaded),
  \<^verbatim>\<open>robot_description.i.name\<close>, the file system (path to contents), and the answer
  of the remote planner to \<^verbatim>\<open>plan_and_execute\<close>.
\<close>

record env =
  objects :: "bobject list"
  robot :: "bobject option"
  robot_description_name :: string
  files :: "string \<rightharpoonup> string"
  planner :: "giskard_call list \<Rightarrow> MoveResult"

text \<open>
  Modelled from the spec: the remote planning service itself (giskardpy's
  \<^verbatim>\<open>GiskardWrapper\<close>) is an external collaborator and not among the sources. The
  spec gives it \<^verbatim>\<open>listNames\<close>, \<^verbatim>\<open>spawn\<close>, \<^verbatim>\<open>remove\<close> and a clear operation.
  Listing returns the tracked names. Spawning tracks the name (a name that is already
  tracked stays tracked once). Removing drops the name. Clearing leaves the robot alone:
  in the spec's scenario, clearing the state \<open>{robot, table_9}\<close> and spawning
  \<open>cup_1\<close> and \<open>bowl_2\<close> ends in \<open>{robot, cup_1, bowl_2}\<close>. The robot's identifier is
  the one the code exempts from its staleness test, \<^verbatim>\<open>robot_description.i.name\<close>.
  Every call is recorded in \<open>calls\<close>.
\<close>

definition get_group_names :: "giskard \<Rightarrow> string list \<times> giskard" where
  "get_group_names g = (group_names g, g\<lparr>calls := calls g @ [GetGroupNames]\<rparr>)"

definition clear_world :: "string \<Rightarrow> giskard \<Rightarrow> giskard" where
  "clear_world robot_group g = g\<lparr>group_names := [robot_group], calls := calls g @ [ClearWorld]\<rparr>"

definition add_urdf :: "string \<Rightarrow> string \<Rightarrow> PoseStamped \<Rightarrow> giskard \<Rightarrow> giskard" where
  "add_urdf name urdf pose g =
     g\<lparr>group_names := (if name \<in> set (group_names g) then group_names g else group_names g @ [name]),
       calls := calls g @ [AddUrdf name urdf pose]\<rparr>"

definition remove_group :: "string \<Rightarrow> giskard \<Rightarrow> giskard" where
  "remove_group name g =
     g\<lparr>group_names := filter (\<lambda>n. n \<noteq> name) (group_names g), calls := calls g @ [RemoveGroup name]\<rparr>"

text \<open>
  Goal and collision calls do not change the tracked names; \<^verbatim>\<open>plan_and_execute\<close>
  blocks until the planner's terminal result, which is the environment's answer to the
  calls received up to then.
\<close>

definition send :: "giskard_call \<Rightarrow> giskard \<Rightarrow> giskard" where
  "send c g = g\<lparr>calls := calls g @ [c]\<rparr>"

definition plan_and_execute :: "env \<Rightarrow> giskard \<Rightarrow> MoveResult \<times> giskard" where
  "plan_and_execute e g = (planner e (calls g), send PlanAndExecute g)"

section \<open>Creating ROS messages\<close>

text \<open>
  The time stamp of a message header is the wall clock and is left out; the frame is
  always \<^verbatim>\<open>map\<close>. Reading an index beyond the end of a list raises IndexError.
\<close>

definition make_pose_stamped :: "real list \<times> real list \<Rightarrow> py_error + PoseStamped" where
  "make_pose_stamped position_and_orientation =
     (case position_and_orientation of (po, qu) \<Rightarrow>
        if length po < 3 \<or> length qu < 4 then Inl IndexError
        else Inr (PoseStamped ''map'' (po ! 0, po ! 1, po ! 2) (qu ! 0, qu ! 1, qu ! 2, qu ! 3)))"

definition make_point_stamped :: "real list \<Rightarrow> py_error + PointStamped" where
  "make_point_stamped point =
     (if length point < 3 then Inl IndexError
      else Inr (PointStamped ''map'' (point ! 0, point ! 1, point ! 2)))"

definition make_quaternion_stamped :: "real list \<Rightarrow> py_error + QuaternionStamped" where
  "make_quaternion_stamped quaternion =
     (if length quaternion < 4 then Inl IndexError
      else Inr (QuaternionStamped ''map''
                  (quaternion ! 0, quaternion ! 1, quaternion ! 2, quaternion ! 3)))"

definition make_vector_stamped :: "real list \<Rightarrow> py_error + Vector3Stamped" where
  "make_vector_stamped vector =
     (if length vector < 3 then Inl IndexError
      else Inr (Vector3Stamped ''map'' (vector ! 0, vector ! 1, vector ! 2)))"

datatype WorldBodyType = URDF_BODY

record WorldBody =
  body_type :: "WorldBodyType option"
  urdf :: string

text \<open>
  \<^verbatim>\<open>make_world_body\<close>: the file is opened and read into \<^verbatim>\<open>urdf_sting\<close>; the message
  gets \<^verbatim>\<open>urdf_string\<close>, which still holds the empty string.
\<close>

definition make_world_body :: "env \<Rightarrow> bobject \<Rightarrow> py_error + WorldBody" where
  "make_world_body e object =
     (let urdf_string = [] in
      case files e (obj_path object) of
        None \<Rightarrow> Inl FileNotFoundError
      | Some urdf_sting \<Rightarrow> Inr \<lparr>body_type = Some URDF_BODY, urdf = urdf_string\<rparr>)"

section \<open>Belief state management\<close>

text \<open>The name of an object on the remote side: \<^verbatim>\<open>obj.name + "_" + str(obj.id)\<close>.\<close>

definition giskard_name :: "bobject \<Rightarrow> string" where
  "giskard_name obj = obj_name obj @ ''_'' @ str (obj_id obj)"

definition spawn_urdf ::
  "env \<Rightarrow> string \<Rightarrow> string \<Rightarrow> real list \<times> real list \<Rightarrow> giskard \<Rightarrow> (py_error + unit) \<times> giskard" where
  "spawn_urdf e name urdf_path pose g =
     (case files e urdf_path of
        None \<Rightarrow> (Inl FileNotFoundError, g)
      | Some urdf_string \<Rightarrow>
          (case make_pose_stamped pose of
             Inl err \<Rightarrow> (Inl err, g)
           | Inr pose_stamped \<Rightarrow> (Inr (), add_urdf name urdf_string pose_stamped g)))"

definition spawn_object :: "env \<Rightarrow> bobject \<Rightarrow> giskard \<Rightarrow> (py_error + unit) \<times> giskard" where
  "spawn_object e object g = spawn_urdf e (giskard_name object) (obj_path object) (obj_pose object) g"

text \<open>
  The loop of \<^verbatim>\<open>initial_adding_objects\<close>; \<open>groups\<close> is the list fetched before the
  loop and is not fetched again. An exception ends the loop and keeps what was spawned.
\<close>

fun adding_loop :: "env \<Rightarrow> string list \<Rightarrow> bobject list \<Rightarrow> giskard \<Rightarrow> (py_error + unit) \<times> giskard" where
  "adding_loop e groups [] g = (Inr (), g)"
| "adding_loop e groups (obj # objs) g =
     (if Some obj = robot e then adding_loop e groups objs g
      else if giskard_name obj \<notin> set groups then
        (case spawn_object e obj g of
           (Inl err, g') \<Rightarrow> (Inl err, g')
         | (Inr u, g') \<Rightarrow> adding_loop e groups objs g')
      else adding_loop e groups objs g)"

definition initial_adding_objects :: "env \<Rightarrow> giskard \<Rightarrow> (py_error + unit) \<times> giskard" where
  "initial_adding_objects e g =
     (case get_group_names g of (groups, g1) \<Rightarrow> adding_loop e groups (objects e) g1)"

text \<open>
  \<^verbatim>\<open>removing_of_objects\<close>: the lambda reads \<^verbatim>\<open>object_names\<close>, the variable that the
  result of \<^verbatim>\<open>list(map(...))\<close> is about to be bound to. \<^verbatim>\<open>list\<close> calls the lambda
  once for the first object, and that call raises NameError. With no object the lambda is
  never called, \<^verbatim>\<open>object_names\<close> is the empty list and every group is removed.
\<close>

definition removing_of_objects :: "env \<Rightarrow> giskard \<Rightarrow> (py_error + unit) \<times> giskard" where
  "removing_of_objects e g =
     (case get_group_names g of (groups, g1) \<Rightarrow>
        (case objects e of
           obj # objs \<Rightarrow> (Inl NameError, g1)
         | [] \<Rightarrow>
             (let object_names = [];
                  diff = remdups (filter (\<lambda>grp. grp \<notin> set object_names) groups)
              in (Inr (), fold remove_group diff g1))))"

definition stale :: "env \<Rightarrow> string list \<Rightarrow> bool" where
  "stale e groups =
     (set groups - set (map giskard_name (objects e)) - {robot_description_name e} \<noteq> {})"

definition sync_worlds :: "env \<Rightarrow> giskard \<Rightarrow> (py_error + unit) \<times> giskard" where
  "sync_worlds e g =
     (case get_group_names g of (giskard_object_names, g1) \<Rightarrow>
        initial_adding_objects e
          (if stale e giskard_object_names then clear_world (robot_description_name e) g1 else g1))"


definition update_pose :: "bobject \<Rightarrow> giskard \<Rightarrow> (py_error + unit) \<times> giskard" where
  "update_pose object g =
     (case make_pose_stamped (obj_pose object) of
        Inl err \<Rightarrow> (Inl err, g)
      | Inr pose_stamped \<Rightarrow> (Inr (), send (UpdateGroupPose (giskard_name object) pose_stamped) g))"

definition remove_object :: "bobject \<Rightarrow> giskard \<Rightarrow> giskard" where
  "remove_object object g = remove_group (giskard_name object) g"

section \<open>Sending goals\<close>

text \<open>
  The two lines that end every goal function: the goal is handed to the wrapper, then
  \<^verbatim>\<open>plan_and_execute\<close> is called and its result returned.
\<close>

definition submit :: "env \<Rightarrow> giskard_call \<Rightarrow> giskard \<Rightarrow> (py_error + MoveResult) \<times> giskard" where
  "submit e goal g = (case plan_and_execute e (send goal g) of (res, g2) \<Rightarrow> (Inr res, g2))"

definition achieve_joint_goal :: "env \<Rightarrow> joint_dict \<Rightarrow> giskard \<Rightarrow> (py_error + MoveResult) \<times> giskard" where
  "achieve_joint_goal e goal_poses g =
     (case sync_worlds e g of
        (Inl err, g1) \<Rightarrow> (Inl err, g1)
      | (Inr u, g1) \<Rightarrow> submit e (SetJointGoal goal_poses) g1)"

definition achieve_cartesian_goal ::
  "env \<Rightarrow> real list \<times> real list \<Rightarrow> string \<Rightarrow> string \<Rightarrow> giskard \<Rightarrow> (py_error + MoveResult) \<times> giskard" where
  "achieve_cartesian_goal e goal_pose tip_link root_link g =
     (case sync_worlds e g of
        (Inl err, g1) \<Rightarrow> (Inl err, g1)
      | (Inr u, g1) \<Rightarrow>
          (case make_pose_stamped goal_pose of
             Inl err \<Rightarrow> (Inl err, g1)
           | Inr pose \<Rightarrow> submit e (SetCartGoal pose tip_link root_link) g1))"

definition achieve_straight_cartesian_goal ::
  "env \<Rightarrow> real list \<times> real list \<Rightarrow> string \<Rightarrow> string \<Rightarrow> giskard \<Rightarrow> (py_error + MoveResult) \<times> giskard" where
  "achieve_straight_cartesian_goal e goal_pose tip_link root_link g =
     (case sync_worlds e g of
        (Inl err, g1) \<Rightarrow> (Inl err, g1)
      | (Inr u, g1) \<Rightarrow>
          (case make_pose_stamped goal_pose of
             Inl err \<Rightarrow> (Inl err, g1)
           | Inr pose \<Rightarrow> submit e (SetStraightCartGoal pose tip_link root_link) g1))"

definition achieve_translation_goal ::
  "env \<Rightarrow> real list \<Rightarrow> string \<Rightarrow> string \<Rightarrow> giskard \<Rightarrow> (py_error + MoveResult) \<times> giskard" where
  "achieve_translation_goal e goal_point tip_link root_link g =
     (case sync_worlds e g of
        (Inl err, g1) \<Rightarrow> (Inl err, g1)
      | (Inr u, g1) \<Rightarrow>
          (case make_point_stamped goal_point of
             Inl err \<Rightarrow> (Inl err, g1)
           | Inr point \<Rightarrow> submit e (SetTranslationGoal point tip_link root_link) g1))"

definition achieve_straight_translation_goal ::
  "env \<Rightarrow> real list \<Rightarrow> string \<Rightarrow> string \<Rightarrow> giskard \<Rightarrow> (py_error + MoveResult) \<times> giskard" where
  "achieve_straight_translation_goal e goal_point tip_link root_link g =
     (case sync_worlds e g of
        (Inl err, g1) \<Rightarrow> (Inl err, g1)
      | (Inr u, g1) \<Rightarrow>
          (case make_point_stamped goal_point of
             Inl err \<Rightarrow> (Inl err, g1)
           | Inr point \<Rightarrow> submit e (SetStraightTranslationGoal point tip_link root_link) g1))"

definition achieve_rotation_goal ::
  "env \<Rightarrow> real list \<Rightarrow> string \<Rightarrow> string \<Rightarrow> giskard \<Rightarrow> (py_error + MoveResult) \<times> giskard" where
  "achieve_rotation_goal e quat tip_link root_link g =
     (case sync_worlds e g of
        (Inl err, g1) \<Rightarrow> (Inl err, g1)
      | (Inr u, g1) \<Rightarrow>
          (case make_quaternion_stamped quat of
             Inl err \<Rightarrow> (Inl err, g1)
           | Inr q \<Rightarrow> submit e (SetRotationGoal q tip_link root_link) g1))"

definition achieve_align_planes_goal ::
  "env \<Rightarrow> real list \<Rightarrow> string \<Rightarrow> real list \<Rightarrow> string \<Rightarrow> giskard \<Rightarrow> (py_error + MoveResult) \<times> giskard" where
  "achieve_align_planes_goal e goal_normal tip_link tip_normal root_link g =
     (case sync_worlds e g of
        (Inl err, g1) \<Rightarrow> (Inl err, g1)
      | (Inr u, g1) \<Rightarrow>
          (case make_vector_stamped goal_normal of
             Inl err \<Rightarrow> (Inl err, g1)
           | Inr gn \<Rightarrow>
               (case make_vector_stamped tip_normal of
                  Inl err \<Rightarrow> (Inl err, g1)
                | Inr tn \<Rightarrow> submit e (SetAlignPlanesGoal gn tip_link tn root_link) g1)))"

definition achieve_open_container_goal ::
  "env \<Rightarrow> string \<Rightarrow> string \<Rightarrow> giskard \<Rightarrow> (py_error + MoveResult) \<times> giskard" where
  "achieve_open_container_goal e tip_link environment_link g =
     (case sync_worlds e g of
        (Inl err, g1) \<Rightarrow> (Inl err, g1)
      | (Inr u, g1) \<Rightarrow> submit e (SetOpenContainerGoal tip_link environment_link) g1)"

definition achieve_close_container_goal ::
  "env \<Rightarrow> string \<Rightarrow> string \<Rightarrow> giskard \<Rightarrow> (py_error + MoveResult) \<times> giskard" where
  "achieve_close_container_goal e tip_link environment_link g =
     (case sync_worlds e g of
        (Inl err, g1) \<Rightarrow> (Inl err, g1)
      | (Inr u, g1) \<Rightarrow> submit e (SetCloseContainerGoal tip_link environment_link) g1)"

subsection \<open>Managing collisions\<close>

definition avoid_all_collisions :: "giskard \<Rightarrow> giskard" where
  "avoid_all_collisions g = send AvoidAllCollisions g"

definition allow_self_collision :: "giskard \<Rightarrow> giskard" where
  "allow_self_collision g = send AllowSelfCollision g"

definition avoid_collisions :: "bobject \<Rightarrow> bobject \<Rightarrow> giskard \<Rightarrow> giskard" where
  "avoid_collisions object1 object2 g =
     send (AvoidCollision (- 1) (giskard_name object1) (giskard_name object2)) g"

subsection \<open>The goal families, for statements about all of them\<close>

datatype goal =
    JointGoal joint_dict
  | CartesianGoal "real list \<times> real list" string string
  | StraightCartesianGoal "real list \<times> real list" string string
  | TranslationGoal "real list" string string
  | StraightTranslationGoal "real list" string string
  | RotationGoal "real list" string string
  | AlignPlanesGoal "real list" string "real list" string
  | OpenContainerGoal string string
  | CloseContainerGoal string string

fun achieve :: "env \<Rightarrow> goal \<Rightarrow> giskard \<Rightarrow> (py_error + MoveResult) \<times> giskard" where
  "achieve e (JointGoal d) g = achieve_joint_goal e d g"
| "achieve e (CartesianGoal p t r) g = achieve_cartesian_goal e p t r g"
| "achieve e (StraightCartesianGoal p t r) g = achieve_straight_cartesian_goal e p t r g"
| "achieve e (TranslationGoal p t r) g = achieve_translation_goal e p t r g"
| "achieve e (StraightTranslationGoal p t r) g = achieve_straight_translation_goal e p t r g"
| "achieve e (RotationGoal q t r) g = achieve_rotation_goal e q t r g"
| "achieve e (AlignPlanesGoal gn t tn r) g = achieve_align_planes_goal e gn t tn r g"
| "achieve e (OpenContainerGoal t l) g = achieve_open_container_goal e t l g"
| "achieve e (CloseContainerGoal t l) g = achieve_close_container_goal e t l g"

text \<open>The goal description of a request, as the wrapper is to receive it.\<close>

fun goal_message :: "goal \<Rightarrow> py_error + giskard_call" where
  "goal_message (JointGoal d) = Inr (SetJointGoal d)"
| "goal_message (CartesianGoal p t r) = map_sum id (\<lambda>m. SetCartGoal m t r) (make_pose_stamped p)"
| "goal_message (StraightCartesianGoal p t r) =
     map_sum id (\<lambda>m. SetStraightCartGoal m t r) (make_pose_stamped p)"
| "goal_message (TranslationGoal p t r) = map_sum id (\<lambda>m. SetTranslationGoal m t r) (make_point_stamped p)"
| "goal_message (StraightTranslationGoal p t r) =
     map_sum id (\<lambda>m. SetStraightTranslationGoal m t r) (make_point_stamped p)"
| "goal_message (RotationGoal q t r) = map_sum id (\<lambda>m. SetRotationGoal m t r) (make_quaternion_stamped q)"
| "goal_message (AlignPlanesGoal gn t tn r) =
     (case make_vector_stamped gn of
        Inl err \<Rightarrow> Inl err
      | Inr a \<Rightarrow> map_sum id (\<lambda>b. SetAlignPlanesGoal a t b r) (make_vector_stamped tn))"
| "goal_message (OpenContainerGoal t l) = Inr (SetOpenContainerGoal t l)"
| "goal_message (CloseContainerGoal t l) = Inr (SetCloseContainerGoal t l)"

fun is_collision_call :: "giskard_call \<Rightarrow> bool" where
  "is_collision_call AvoidAllCollisions = True"
| "is_collision_call AllowSelfCollision = True"
| "is_collision_call (AvoidCollision d a b) = True"
| "is_collision_call c = False"

subsection \<open>Reading the record of calls\<close>

text \<open>The calls that change the belief state, and what each one does to it.\<close>

datatype mutation = Cleared | Spawned string | Removed string | Moved string

fun mutation_of :: "giskard_call \<Rightarrow> mutation option" where
  "mutation_of ClearWorld = Some Cleared"
| "mutation_of (AddUrdf name u p) = Some (Spawned name)"
| "mutation_of (AddMesh name u p) = Some (Spawned name)"
| "mutation_of (RemoveGroup name) = Some (Removed name)"
| "mutation_of (UpdateGroupPose name p) = Some (Moved name)"
| "mutation_of c = None"

fun mutations :: "giskard_call list \<Rightarrow> mutation list" where
  "mutations [] = []"
| "mutations (c # cs) = (case mutation_of c of None \<Rightarrow> mutations cs | Some m \<Rightarrow> m # mutations cs)"

text \<open>The calls made between an earlier state and a later one.\<close>

definition new_calls :: "giskard \<Rightarrow> giskard \<Rightarrow> giskard_call list" where
  "new_calls g g' = drop (length (calls g)) (calls g')"

definition non_robot_objects :: "env \<Rightarrow> bobject list" where
  "non_robot_objects e = filter (\<lambda>obj. Some obj \<noteq> robot e) (objects e)"


section \<open>Process modules of the HSRB\<close>

subsection \<open>Designators\<close>


record MoveJointsMotion =
  names :: "string list"
  positions :: "real list"


subsection \<open>Simulated\<close>



text \<open>
  Modelled from the spec: \<^verbatim>\<open>BulletWorld.get_objects_by_type\<close> belongs to the World
  Model, which is not among the sources: the bodies of the World Model that carry the
  given type tag, in the order of the world. \<^verbatim>\<open>btr.visible\<close> is a parameter:
  \<open>visible r obj\<close> is its answer for the object and the camera pose of the robot \<open>r\<close>.
\<close>

definition get_objects_by_type :: "env \<Rightarrow> ObjectType \<Rightarrow> bobject list" where
  "get_objects_by_type e object_type = filter (\<lambda>obj. obj_type obj = object_type) (objects e)"

text \<open>
  The loop of \<^verbatim>\<open>HSRBDetecting._execute\<close>. Each round reads the camera pose with
  \<^verbatim>\<open>robot.get_link_pose\<close>; when \<^verbatim>\<open>BulletWorld.robot\<close> is \<^verbatim>\<open>None\<close> that raises
  AttributeError. The first visible object is returned. When the loop ends without one
  the method ends without a \<^verbatim>\<open>return\<close>, and the caller gets \<^verbatim>\<open>None\<close>.
\<close>

fun detecting_loop ::
  "(bobject \<Rightarrow> bobject \<Rightarrow> bool) \<Rightarrow> bobject option \<Rightarrow> bobject list \<Rightarrow> py_error + bobject option" where
  "detecting_loop visible robot' [] = Inr None"
| "detecting_loop visible robot' (obj # objs) =
     (case robot' of
        None \<Rightarrow> Inl AttributeError
      | Some r \<Rightarrow> if visible r obj then Inr (Some obj) else detecting_loop visible robot' objs)"

definition HSRBDetecting_execute ::
  "(bobject \<Rightarrow> bobject \<Rightarrow> bool) \<Rightarrow> env \<Rightarrow> ObjectType \<Rightarrow> py_error + bobject option" where
  "HSRBDetecting_execute visible e object_type =
     detecting_loop visible (robot e) (get_objects_by_type e object_type)"

text \<open>
  \<^verbatim>\<open>HSRBWorldStateDetecting._execute\<close> takes element 0 of the list of objects of the
  type; on the empty list that raises IndexError.
\<close>

definition HSRBWorldStateDetecting_execute :: "env \<Rightarrow> ObjectType \<Rightarrow> py_error + bobject option" where
  "HSRBWorldStateDetecting_execute e obj_type' =
     (case filter (\<lambda>obj. obj_type obj = obj_type') (objects e) of
        [] \<Rightarrow> Inl IndexError
      | obj # objs \<Rightarrow> Inr (Some obj))"

subsection \<open>Real\<close>


text \<open>\<^verbatim>\<open>dict(zip(names, positions))\<close>: the pairs in order, a later pair replacing an earlier one.\<close>

definition HSRBMoveJointsReal_execute ::
  "env \<Rightarrow> MoveJointsMotion \<Rightarrow> giskard \<Rightarrow> (py_error + unit) \<times> giskard" where
  "HSRBMoveJointsReal_execute e designator g =
     (let name_to_position = dict_update [] (zip (names designator) (positions designator))
      in case achieve_joint_goal e name_to_position (avoid_all_collisions g) of
           (Inl err, g') \<Rightarrow> (Inl err, g')
         | (Inr res, g') \<Rightarrow> (Inr (), g'))"

section \<open>Process module managers\<close>

text \<open>
  A \<^verbatim>\<open>threading.Lock\<close> object is known by its identity. \<^verbatim>\<open>Lock()\<close> makes a new
  object: the allocator hands out the next identity that was never used.
\<close>

datatype lock = Lock nat

definition new_Lock :: "nat \<Rightarrow> lock \<times> nat" where
  "new_Lock h = (Lock h, Suc h)"

datatype pm_class =
    HSRBNavigation | HSRBPickUp | HSRBPlace | HSRBMoveHead | HSRBMoveGripper | HSRBDetecting
  | HSRBMoveTCP | HSRBMoveArmJoints | HSRBMoveJoints | HSRBWorldStateDetecting | HSRBOpen | HSRBClose
  | HSRBNavigationReal | HSRBPickUpReal | HSRBPlaceReal | HSRBMoveHeadReal | HSRBDetectingReal
  | HSRBMoveTCPReal | HSRBMoveArmJointsReal | HSRBMoveJointsReal | HSRBMoveGripperReal
  | HSRBOpenReal | HSRBCloseReal
  | DonbotMoveHead

text \<open>A process module object: its class and the lock its constructor was given.\<close>

record process_module =
  pm_class :: pm_class
  pm_lock :: lock

definition ProcessModule :: "pm_class \<Rightarrow> lock \<Rightarrow> process_module" where
  "ProcessModule c l = \<lparr>pm_class = c, pm_lock = l\<rparr>"

record HSRBManager =
  robot_name :: string
  navigate_lock :: lock
  pick_up_lock :: lock
  place_lock :: lock
  looking_lock :: lock
  detecting_lock :: lock
  move_tcp_lock :: lock
  move_arm_joints_lock :: lock
  world_state_detecting_lock :: lock
  move_joints_lock :: lock
  move_gripper_lock :: lock
  open_lock :: lock
  close_lock :: lock

text \<open>\<^verbatim>\<open>HSRBManager.__init__\<close>: twelve calls of \<^verbatim>\<open>Lock()\<close>, one after the other.\<close>

definition HSRBManager_init :: "nat \<Rightarrow> HSRBManager \<times> nat" where
  "HSRBManager_init h0 =
     (case new_Lock h0 of (l1, h1) \<Rightarrow>
      case new_Lock h1 of (l2, h2) \<Rightarrow>
      case new_Lock h2 of (l3, h3) \<Rightarrow>
      case new_Lock h3 of (l4, h4) \<Rightarrow>
      case new_Lock h4 of (l5, h5) \<Rightarrow>
      case new_Lock h5 of (l6, h6) \<Rightarrow>
      case new_Lock h6 of (l7, h7) \<Rightarrow>
      case new_Lock h7 of (l8, h8) \<Rightarrow>
      case new_Lock h8 of (l9, h9) \<Rightarrow>
      case new_Lock h9 of (l10, h10) \<Rightarrow>
      case new_Lock h10 of (l11, h11) \<Rightarrow>
      case new_Lock h11 of (l12, h12) \<Rightarrow>
        (\<lparr>robot_name = ''hsrb'', navigate_lock = l1, pick_up_lock = l2, place_lock = l3,
          looking_lock = l4, detecting_lock = l5, move_tcp_lock = l6, move_arm_joints_lock = l7,
          world_state_detecting_lock = l8, move_joints_lock = l9, move_gripper_lock = l10,
          open_lock = l11, close_lock = l12\<rparr>, h12))"

text \<open>
  The methods of the manager. \<open>execution_type\<close> is \<^verbatim>\<open>ProcessModuleManager.execution_type\<close>.
  A method whose branches are all passed over ends without a \<^verbatim>\<open>return\<close>: the caller gets
  \<^verbatim>\<open>None\<close>, and nothing is raised.
\<close>

definition HSRBManager_navigate :: "HSRBManager \<Rightarrow> string \<Rightarrow> py_error + process_module option" where
  "HSRBManager_navigate self execution_type =
     (if execution_type = ''simulated'' then Inr (Some (ProcessModule HSRBNavigation (navigate_lock self)))
      else if execution_type = ''real'' then Inr (Some (ProcessModule HSRBNavigationReal (navigate_lock self)))
      else Inr None)"

definition HSRBManager_pick_up :: "HSRBManager \<Rightarrow> string \<Rightarrow> py_error + process_module option" where
  "HSRBManager_pick_up self execution_type =
     (if execution_type = ''simulated'' then Inr (Some (ProcessModule HSRBPickUp (pick_up_lock self)))
      else if execution_type = ''real'' then Inr (Some (ProcessModule HSRBPickUpReal (pick_up_lock self)))
      else Inr None)"

definition HSRBManager_place :: "HSRBManager \<Rightarrow> string \<Rightarrow> py_error + process_module option" where
  "HSRBManager_place self execution_type =
     (if execution_type = ''simulated'' then Inr (Some (ProcessModule HSRBPlace (place_lock self)))
      else if execution_type = ''real'' then Inr (Some (ProcessModule HSRBPlaceReal (place_lock self)))
      else Inr None)"

definition HSRBManager_looking :: "HSRBManager \<Rightarrow> string \<Rightarrow> py_error + process_module option" where
  "HSRBManager_looking self execution_type =
     (if execution_type = ''simulated'' then Inr (Some (ProcessModule HSRBMoveHead (looking_lock self)))
      else if execution_type = ''real'' then Inr (Some (ProcessModule HSRBMoveHeadReal (looking_lock self)))
      else Inr None)"

definition HSRBManager_detecting :: "HSRBManager \<Rightarrow> string \<Rightarrow> py_error + process_module option" where
  "HSRBManager_detecting self execution_type =
     (if execution_type = ''simulated'' then Inr (Some (ProcessModule HSRBDetecting (detecting_lock self)))
      else if execution_type = ''real'' then Inr (Some (ProcessModule HSRBDetectingReal (detecting_lock self)))
      else Inr None)"

definition HSRBManager_move_tcp :: "HSRBManager \<Rightarrow> string \<Rightarrow> py_error + process_module option" where
  "HSRBManager_move_tcp self execution_type =
     (if execution_type = ''simulated'' then Inr (Some (ProcessModule HSRBMoveTCP (move_tcp_lock self)))
      else if execution_type = ''real'' then Inr (Some (ProcessModule HSRBMoveTCPReal (move_tcp_lock self)))
      else Inr None)"

definition HSRBManager_move_arm_joints :: "HSRBManager \<Rightarrow> string \<Rightarrow> py_error + process_module option" where
  "HSRBManager_move_arm_joints self execution_type =
     (if execution_type = ''simulated''
      then Inr (Some (ProcessModule HSRBMoveArmJoints (move_arm_joints_lock self)))
      else if execution_type = ''real''
      then Inr (Some (ProcessModule HSRBMoveArmJointsReal (move_arm_joints_lock self)))
      else Inr None)"

definition HSRBManager_world_state_detecting ::
  "HSRBManager \<Rightarrow> string \<Rightarrow> py_error + process_module option" where
  "HSRBManager_world_state_detecting self execution_type =
     (if execution_type = ''simulated'' \<or> execution_type = ''real''
      then Inr (Some (ProcessModule HSRBWorldStateDetecting (world_state_detecting_lock self)))
      else Inr None)"

definition HSRBManager_move_joints :: "HSRBManager \<Rightarrow> string \<Rightarrow> py_error + process_module option" where
  "HSRBManager_move_joints self execution_type =
     (if execution_type = ''simulated'' then Inr (Some (ProcessModule HSRBMoveJoints (move_joints_lock self)))
      else if execution_type = ''real''
      then Inr (Some (ProcessModule HSRBMoveJointsReal (move_joints_lock self)))
      else Inr None)"

definition HSRBManager_move_gripper :: "HSRBManager \<Rightarrow> string \<Rightarrow> py_error + process_module option" where
  "HSRBManager_move_gripper self execution_type =
     (if execution_type = ''simulated'' then Inr (Some (ProcessModule HSRBMoveGripper (move_gripper_lock self)))
      else if execution_type = ''real''
      then Inr (Some (ProcessModule HSRBMoveGripperReal (move_gripper_lock self)))
      else Inr None)"

definition HSRBManager_open :: "HSRBManager \<Rightarrow> string \<Rightarrow> py_error + process_module option" where
  "HSRBManager_open self execution_type =
     (if execution_type = ''simulated'' then Inr (Some (ProcessModule HSRBOpen (open_lock self)))
      else if execution_type = ''real'' then Inr (Some (ProcessModule HSRBOpenReal (open_lock self)))
      else Inr None)"

definition HSRBManager_close :: "HSRBManager \<Rightarrow> string \<Rightarrow> py_error + process_module option" where
  "HSRBManager_close self execution_type =
     (if execution_type = ''simulated'' then Inr (Some (ProcessModule HSRBClose (close_lock self)))
      else if execution_type = ''real'' then Inr (Some (ProcessModule HSRBCloseReal (close_lock self)))
      else Inr None)"

text \<open>The capabilities are the twelve methods; asking for a capability calls its method.\<close>

datatype capability =
    Navigate | PickUp | Place | Looking | Detecting | MoveTCP | MoveArmJoints
  | WorldStateDetecting | MoveJoints | MoveGripper | Open | Close

fun acquire :: "HSRBManager \<Rightarrow> capability \<Rightarrow> string \<Rightarrow> py_error + process_module option" where
  "acquire m Navigate t = HSRBManager_navigate m t"
| "acquire m PickUp t = HSRBManager_pick_up m t"
| "acquire m Place t = HSRBManager_place m t"
| "acquire m Looking t = HSRBManager_looking m t"
| "acquire m Detecting t = HSRBManager_detecting m t"
| "acquire m MoveTCP t = HSRBManager_move_tcp m t"
| "acquire m MoveArmJoints t = HSRBManager_move_arm_joints m t"
| "acquire m WorldStateDetecting t = HSRBManager_world_state_detecting m t"
| "acquire m MoveJoints t = HSRBManager_move_joints m t"
| "acquire m MoveGripper t = HSRBManager_move_gripper m t"
| "acquire m Open t = HSRBManager_open m t"
| "acquire m Close t = HSRBManager_close m t"

text \<open>The lock field that carries the name of a capability.\<close>

fun capability_lock :: "HSRBManager \<Rightarrow> capability \<Rightarrow> lock" where
  "capability_lock m Navigate = navigate_lock m"
| "capability_lock m PickUp = pick_up_lock m"
| "capability_lock m Place = place_lock m"
| "capability_lock m Looking = looking_lock m"
| "capability_lock m Detecting = detecting_lock m"
| "capability_lock m MoveTCP = move_tcp_lock m"
| "capability_lock m MoveArmJoints = move_arm_joints_lock m"
| "capability_lock m WorldStateDetecting = world_state_detecting_lock m"
| "capability_lock m MoveJoints = move_joints_lock m"
| "capability_lock m MoveGripper = move_gripper_lock m"
| "capability_lock m Open = open_lock m"
| "capability_lock m Close = close_lock m"

definition all_capabilities :: "capability list" where
  "all_capabilities = [Navigate, PickUp, Place, Looking, Detecting, MoveTCP, MoveArmJoints,
                       WorldStateDetecting, MoveJoints, MoveGripper, Open, Close]"

text \<open>The lock a lookup result passes on, when the result is a process module.\<close>

definition passed_lock :: "py_error + process_module option \<Rightarrow> lock option" where
  "passed_lock r = (case r of Inr (Some p) \<Rightarrow> Some (pm_lock p) | _ \<Rightarrow> None)"

definition selected_class :: "py_error + process_module option \<Rightarrow> pm_class option" where
  "selected_class r = (case r of Inr (Some p) \<Rightarrow> Some (pm_class p) | _ \<Rightarrow> None)"

subsection \<open>The Donbot manager\<close>

text \<open>
  Modelled from the spec: the enumeration \<^verbatim>\<open>ExecutionType\<close> is not among the sources;
  the execution mode is one of simulated and real. The base class \<^verbatim>\<open>DefaultManager\<close>,
  whose constructor provides \<^verbatim>\<open>_looking_lock\<close>, is not among the sources either: the
  lock is a parameter of the constructor here.
\<close>

datatype ExecutionType = SIMULATED | REAL

record DonbotManager =
  donbot_robot_name :: string
  donbot_looking_lock :: lock

definition DonbotManager_init :: "lock \<Rightarrow> DonbotManager" where
  "DonbotManager_init l = \<lparr>donbot_robot_name = ''iai_donbot'', donbot_looking_lock = l\<rparr>"

definition DonbotManager_looking :: "DonbotManager \<Rightarrow> ExecutionType \<Rightarrow> py_error + process_module option" where
  "DonbotManager_looking self execution_type =
     (if execution_type = SIMULATED
      then Inr (Some (ProcessModule DonbotMoveHead (donbot_looking_lock self)))
      else Inr None)"

section \<open>A scenario\<close>

text \<open>
  The World Model holds the robot, a cup and a bowl; on the remote side their names are
  \<open>hsrb\<close>, \<open>cup_1\<close> and \<open>bowl_2\<close>.
\<close>

definition hsrb :: bobject where
  "hsrb = \<lparr>obj_name = ''hsrb'', obj_id = 0, obj_type = ROBOT, obj_path = ''hsrb.urdf'',
           obj_pose = ([0, 0, 0], [0, 0, 0, 1])\<rparr>"

definition cup :: bobject where
  "cup = \<lparr>obj_name = ''cup'', obj_id = 1, obj_type = JEROEN_CUP, obj_path = ''cup.urdf'',
          obj_pose = ([1, 0, 0], [0, 0, 0, 1])\<rparr>"

definition bowl :: bobject where
  "bowl = \<lparr>obj_name = ''bowl'', obj_id = 2, obj_type = BOWL, obj_path = ''bowl.urdf'',
           obj_pose = ([2, 0, 0], [0, 0, 0, 1])\<rparr>"

definition kitchen :: env where
  "kitchen = \<lparr>objects = [hsrb, cup, bowl], robot = Some hsrb, robot_description_name = ''hsrb'',
              files = [''cup.urdf'' \<mapsto> ''<cup/>'', ''bowl.urdf'' \<mapsto> ''<bowl/>''],
              planner = (\<lambda>cs. MoveResult [0] [])\<rparr>"

definition cup_pose :: PoseStamped where
  "cup_pose = PoseStamped ''map'' (1, 0, 0) (0, 0, 0, 1)"

definition bowl_pose :: PoseStamped where
  "bowl_pose = PoseStamped ''map'' (2, 0, 0) (0, 0, 0, 1)"

text \<open>The manager that the constructor builds when no lock was made before.\<close>

definition example_manager :: HSRBManager where
  "example_manager =
     \<lparr>robot_name = ''hsrb'', navigate_lock = Lock 0, pick_up_lock = Lock 1, place_lock = Lock 2,
       looking_lock = Lock 3, detecting_lock = Lock 4, move_tcp_lock = Lock 5,
       move_arm_joints_lock = Lock 6, world_state_detecting_lock = Lock 7, move_joints_lock = Lock 8,
       move_gripper_lock = Lock 9, open_lock = Lock 10, close_lock = Lock 11\<rparr>"

section \<open>Properties\<close>


lemma mutations_append: "mutations (xs @ ys) = mutations xs @ mutations ys"
  by (induction xs) (auto split: option.splits)

lemma spawn_object_fail:
  "spawn_object e obj g = (Inl err, g') \<Longrightarrow> g' = g \<and> spawn_object e obj h = (Inl err, h)"
  by (auto simp: spawn_object_def spawn_urdf_def split: option.splits sum.splits)

lemma spawn_object_ok:
  assumes "spawn_object e obj g = (Inr u, g')"
  shows "set (group_names g') = insert (giskard_name obj) (set (group_names g))"
    and "\<exists>c. calls g' = calls g @ [c] \<and> mutation_of c = Some (Spawned (giskard_name obj))"
  using assms
  by (auto simp: spawn_object_def spawn_urdf_def add_urdf_def split: option.splits sum.splits if_splits)

lemma adding_loop_groups:
  "adding_loop e gs objs g = (r, g') \<Longrightarrow>
     set (group_names g) \<subseteq> set (group_names g') \<and>
     set (group_names g') \<subseteq> set (group_names g) \<union> giskard_name ` {obj \<in> set objs. Some obj \<noteq> robot e}"
proof (induction objs arbitrary: g)
  case Nil
  then show ?case by simp
next
  case (Cons obj objs)
  show ?case
  proof (cases "Some obj = robot e \<or> giskard_name obj \<in> set gs")
    case True
    with Cons.prems have "adding_loop e gs objs g = (r, g')" by (auto split: if_splits)
    from Cons.IH [OF this] show ?thesis by auto
  next
    case False
    show ?thesis
    proof (cases "spawn_object e obj g")
      case (Pair res g1)
      show ?thesis
      proof (cases res)
        case (Inl err)
        with Pair False Cons.prems have "g' = g" by (auto dest: spawn_object_fail)
        then show ?thesis by simp
      next
        case (Inr u)
        with Pair False Cons.prems have loop: "adding_loop e gs objs g1 = (r, g')" by auto
        from Pair Inr have "set (group_names g1) = insert (giskard_name obj) (set (group_names g))"
          by (auto dest: spawn_object_ok(1))
        with Cons.IH [OF loop] False show ?thesis by auto
      qed
    qed
  qed
qed

lemma adding_loop_covers:
  "adding_loop e gs objs g = (Inr (), g') \<Longrightarrow> obj \<in> set objs \<Longrightarrow> Some obj \<noteq> robot e \<Longrightarrow>
     giskard_name obj \<in> set gs \<union> set (group_names g')"
proof (induction objs arbitrary: g)
  case Nil
  then show ?case by simp
next
  case (Cons x objs)
  show ?case
  proof (cases "Some x = robot e \<or> giskard_name x \<in> set gs")
    case True
    with Cons.prems have loop: "adding_loop e gs objs g = (Inr (), g')" by (auto split: if_splits)
    show ?thesis
    proof (cases "obj = x")
      case True
      with \<open>Some x = robot e \<or> giskard_name x \<in> set gs\<close> Cons.prems show ?thesis by auto
    next
      case False
      with Cons.prems have "obj \<in> set objs" by simp
      from Cons.IH [OF loop this Cons.prems(3)] show ?thesis .
    qed
  next
    case False
    obtain res g1 where sp: "spawn_object e x g = (res, g1)" by (cases "spawn_object e x g")
    with False Cons.prems obtain u where res: "res = Inr u" and loop: "adding_loop e gs objs g1 = (Inr (), g')"
      by (cases res) auto
    show ?thesis
    proof (cases "obj = x")
      case True
      from sp res have "giskard_name x \<in> set (group_names g1)" by (auto dest: spawn_object_ok(1))
      with adding_loop_groups [OF loop] True show ?thesis by auto
    next
      case False
      with Cons.prems have "obj \<in> set objs" by simp
      from Cons.IH [OF loop this Cons.prems(3)] show ?thesis .
    qed
  qed
qed

lemma adding_loop_skip:
  "(\<forall>obj \<in> set objs. Some obj \<noteq> robot e \<longrightarrow> giskard_name obj \<in> set gs) \<Longrightarrow>
     adding_loop e gs objs g = (Inr (), g)"
  by (induction objs) auto


lemma adding_loop_again:
  "adding_loop e gs objs g = (r, g1) \<Longrightarrow> set gs \<subseteq> set (group_names g) \<Longrightarrow>
   distinct (map giskard_name (filter (\<lambda>obj. Some obj \<noteq> robot e) objs)) \<Longrightarrow>
   (\<forall>obj \<in> set objs. Some obj \<noteq> robot e \<longrightarrow> giskard_name obj \<in> set (group_names g) \<longrightarrow>
        giskard_name obj \<in> set gs) \<Longrightarrow>
   adding_loop e (group_names g1) objs h = (r, h)"
proof (induction objs arbitrary: g)
  case Nil
  then show ?case by simp
next
  case (Cons x objs)
  show ?case
  proof (cases "Some x = robot e")
    case True
    with Cons.prems have loop: "adding_loop e gs objs g = (r, g1)" by simp
    from Cons.prems True have "adding_loop e (group_names g1) objs h = (r, h)"
      by (intro Cons.IH [OF loop]) auto
    with True show ?thesis by simp
  next
    case nr: False
    show ?thesis
    proof (cases "giskard_name x \<in> set gs")
      case True
      with nr Cons.prems have loop: "adding_loop e gs objs g = (r, g1)" by simp
      from Cons.prems nr have "adding_loop e (group_names g1) objs h = (r, h)"
        by (intro Cons.IH [OF loop]) auto
      moreover from True Cons.prems(2) adding_loop_groups [OF loop]
      have "giskard_name x \<in> set (group_names g1)" by auto
      ultimately show ?thesis using nr by simp
    next
      case False
      obtain res g' where sp: "spawn_object e x g = (res, g')" by (cases "spawn_object e x g")
      show ?thesis
      proof (cases res)
        case (Inl err)
        with sp False nr Cons.prems have r: "r = Inl err" "g1 = g" by (auto dest: spawn_object_fail)
        from sp Inl have "spawn_object e x h = (Inl err, h)" by (auto dest: spawn_object_fail)
        moreover from False nr Cons.prems(4) have "giskard_name x \<notin> set (group_names g)" by auto
        ultimately show ?thesis using r nr by simp
      next
        case (Inr u)
        with sp False nr Cons.prems have loop: "adding_loop e gs objs g' = (r, g1)" by simp
        from sp Inr have grp: "set (group_names g') = insert (giskard_name x) (set (group_names g))"
          by (auto dest: spawn_object_ok(1))
        have fresh: "giskard_name obj \<noteq> giskard_name x" if "obj \<in> set objs" "Some obj \<noteq> robot e" for obj
        proof
          assume eq: "giskard_name obj = giskard_name x"
          from that have "giskard_name obj \<in> set (map giskard_name (filter (\<lambda>obj. Some obj \<noteq> robot e) objs))"
            by auto
          then have "giskard_name x \<in> set (map giskard_name (filter (\<lambda>obj. Some obj \<noteq> robot e) objs))"
            by (simp only: eq)
          with Cons.prems(3) nr show False by simp
        qed
        have p2: "set gs \<subseteq> set (group_names g')" using Cons.prems(2) grp by auto
        have p3: "distinct (map giskard_name (filter (\<lambda>obj. Some obj \<noteq> robot e) objs))"
          using Cons.prems(3) by (simp split: if_splits)
        have p4: "\<forall>obj \<in> set objs. Some obj \<noteq> robot e \<longrightarrow> giskard_name obj \<in> set (group_names g') \<longrightarrow>
                    giskard_name obj \<in> set gs"
          using Cons.prems(4) grp fresh by auto
        have "adding_loop e (group_names g1) objs h = (r, h)"
          by (rule Cons.IH [OF loop p2 p3 p4])
        moreover from grp adding_loop_groups [OF loop]
        have "giskard_name x \<in> set (group_names g1)" by auto
        ultimately show ?thesis using nr by simp
      qed
    qed
  qed
qed


lemma sync_worlds_unfold:
  "sync_worlds e g =
     (if stale e (group_names g)
      then adding_loop e [robot_description_name e] (objects e)
             (g\<lparr>group_names := [robot_description_name e],
                calls := calls g @ [GetGroupNames, ClearWorld, GetGroupNames]\<rparr>)
      else adding_loop e (group_names g) (objects e)
             (g\<lparr>calls := calls g @ [GetGroupNames, GetGroupNames]\<rparr>))"
  by (simp add: sync_worlds_def initial_adding_objects_def get_group_names_def clear_world_def)

lemma stale_subset:
  "set gs \<subseteq> set hs \<union> giskard_name ` set (objects e) \<Longrightarrow> \<not> stale e hs \<Longrightarrow> \<not> stale e gs"
  by (auto simp: stale_def)

lemma not_stale_robot: "\<not> stale e [robot_description_name e]"
  by (simp add: stale_def)



text \<open>
  Claim C3. A second call of \<^verbatim>\<open>sync_worlds\<close> right after a first one, in the same
  World Model, only lists the remote names twice: it makes no clear, spawn or removal,
  leaves the remote names as they are and ends as the first call did. This holds when the
  first call returned, and also when it raised, provided the bodies that are not the
  robot have pairwise different remote names.
\<close>

theorem sync_worlds_idempotent:
  assumes first: "sync_worlds e g = (r, g1)"
    and ok: "r = Inr () \<or> distinct (map giskard_name (non_robot_objects e))"
  shows "sync_worlds e g1 = (r, g1\<lparr>calls := calls g1 @ [GetGroupNames, GetGroupNames]\<rparr>) \<and>
         mutations (new_calls g1 (snd (sync_worlds e g1))) = [] \<and>
         group_names (snd (sync_worlds e g1)) = group_names g1"
proof -
  let ?rn = "robot_description_name e"
  define G where "G = (if stale e (group_names g) then [?rn] else group_names g)"
  define g2 where "g2 = (if stale e (group_names g)
      then g\<lparr>group_names := [?rn], calls := calls g @ [GetGroupNames, ClearWorld, GetGroupNames]\<rparr>
      else g\<lparr>calls := calls g @ [GetGroupNames, GetGroupNames]\<rparr>)"
  have G2: "group_names g2 = G" by (simp add: G_def g2_def)
  have Gns: "\<not> stale e G" by (simp add: G_def not_stale_robot)
  from first have loop: "adding_loop e G (objects e) g2 = (r, g1)"
    by (simp add: sync_worlds_unfold G_def g2_def split: if_splits)
  from adding_loop_groups [OF loop] G2
  have lo: "set G \<subseteq> set (group_names g1)"
    and up: "set (group_names g1) \<subseteq> set G \<union> giskard_name ` set (objects e)"
    by auto
  from stale_subset [OF up Gns] have ns: "\<not> stale e (group_names g1)" .
  let ?h = "g1\<lparr>calls := calls g1 @ [GetGroupNames, GetGroupNames]\<rparr>"
  have again: "adding_loop e (group_names g1) (objects e) ?h = (r, ?h)"
  proof (cases "r = Inr ()")
    case True
    have "\<forall>obj \<in> set (objects e). Some obj \<noteq> robot e \<longrightarrow> giskard_name obj \<in> set (group_names g1)"
    proof (intro ballI impI)
      fix obj assume "obj \<in> set (objects e)" "Some obj \<noteq> robot e"
      with loop True have "giskard_name obj \<in> set G \<union> set (group_names g1)"
        by (intro adding_loop_covers) auto
      with lo show "giskard_name obj \<in> set (group_names g1)" by auto
    qed
    from adding_loop_skip [OF this] True show ?thesis by simp
  next
    case False
    with ok have d: "distinct (map giskard_name (filter (\<lambda>obj. Some obj \<noteq> robot e) (objects e)))"
      by (simp add: non_robot_objects_def)
    show ?thesis
      by (rule adding_loop_again [OF loop _ d]) (simp_all add: G2)
  qed
  with ns have snd: "sync_worlds e g1 = (r, ?h)"
    by (simp add: sync_worlds_unfold)
  have "new_calls g1 ?h = [GetGroupNames, GetGroupNames]"
    by (simp add: new_calls_def)
  with snd show ?thesis by simp
qed


lemma giskard_name_cup: "giskard_name cup = ''cup_1''"
  by (simp add: cup_def giskard_name_def str_def str_nat.simps digit_char_def)

lemma giskard_name_bowl: "giskard_name bowl = ''bowl_2''"
  by (simp add: bowl_def giskard_name_def str_def str_nat.simps digit_char_def)

lemma giskard_name_hsrb: "giskard_name hsrb = ''hsrb_0''"
  by (simp add: hsrb_def giskard_name_def str_def str_nat.simps digit_char_def)

lemma spawn_cup:
  "spawn_object kitchen cup g = (Inr (), add_urdf ''cup_1'' ''<cup/>'' cup_pose g)"
  by (simp add: spawn_object_def spawn_urdf_def giskard_name_cup cup_pose_def)
     (simp add: cup_def kitchen_def make_pose_stamped_def)

lemma spawn_bowl:
  "spawn_object kitchen bowl g = (Inr (), add_urdf ''bowl_2'' ''<bowl/>'' bowl_pose g)"
  by (simp add: spawn_object_def spawn_urdf_def giskard_name_bowl bowl_pose_def)
     (simp add: bowl_def kitchen_def make_pose_stamped_def)

lemma kitchen_robot: "robot kitchen = Some hsrb" "objects kitchen = [hsrb, cup, bowl]"
  "robot_description_name kitchen = ''hsrb''"
  by (simp_all add: kitchen_def)

lemma kitchen_distinct: "cup \<noteq> hsrb" "bowl \<noteq> hsrb"
  by (simp_all add: cup_def bowl_def hsrb_def)


lemma kitchen_stale: "stale kitchen [''hsrb'', ''table_9'']"
  by (simp add: stale_def kitchen_robot giskard_name_cup giskard_name_bowl giskard_name_hsrb)


lemma kitchen_sync_stale:
  "sync_worlds kitchen \<lparr>group_names = [''hsrb'', ''table_9''], calls = []\<rparr> =
     (Inr (), \<lparr>group_names = [''hsrb'', ''cup_1'', ''bowl_2''],
               calls = [GetGroupNames, ClearWorld, GetGroupNames,
                        AddUrdf ''cup_1'' ''<cup/>'' cup_pose, AddUrdf ''bowl_2'' ''<bowl/>'' bowl_pose]\<rparr>)"
  by (simp add: sync_worlds_unfold kitchen_stale kitchen_robot kitchen_distinct
        giskard_name_cup giskard_name_bowl spawn_cup spawn_bowl add_urdf_def)




text \<open>
  The scenario again: the second call adds two listings and nothing else.
\<close>

theorem sync_worlds_idempotent_witness:
  "sync_worlds kitchen \<lparr>group_names = [''hsrb'', ''table_9''], calls = []\<rparr> =
     (Inr (), \<lparr>group_names = [''hsrb'', ''cup_1'', ''bowl_2''],
               calls = [GetGroupNames, ClearWorld, GetGroupNames,
                        AddUrdf ''cup_1'' ''<cup/>'' cup_pose, AddUrdf ''bowl_2'' ''<bowl/>'' bowl_pose]\<rparr>) \<and>
   sync_worlds kitchen \<lparr>group_names = [''hsrb'', ''cup_1'', ''bowl_2''],
               calls = [GetGroupNames, ClearWorld, GetGroupNames,
                        AddUrdf ''cup_1'' ''<cup/>'' cup_pose, AddUrdf ''bowl_2'' ''<bowl/>'' bowl_pose]\<rparr> =
     (Inr (), \<lparr>group_names = [''hsrb'', ''cup_1'', ''bowl_2''],
               calls = [GetGroupNames, ClearWorld, GetGroupNames,
                        AddUrdf ''cup_1'' ''<cup/>'' cup_pose, AddUrdf ''bowl_2'' ''<bowl/>'' bowl_pose,
                        GetGroupNames, GetGroupNames]\<rparr>)"
  using sync_worlds_idempotent [OF kitchen_sync_stale] kitchen_sync_stale
  by simp

text \<open>
  Claim C8. With at least one object in the World Model, \<^verbatim>\<open>removing_of_objects\<close>
  raises NameError after listing the remote names; no name is removed.
\<close>

theorem removing_of_objects_raises:
  "objects e \<noteq> [] \<Longrightarrow>
     removing_of_objects e g = (Inl NameError, g\<lparr>calls := calls g @ [GetGroupNames]\<rparr>) \<and>
     group_names (snd (removing_of_objects e g)) = group_names g \<and>
     mutations (new_calls g (snd (removing_of_objects e g))) = []"
  by (cases "objects e") (simp_all add: removing_of_objects_def get_group_names_def new_calls_def)

text \<open>
  In the scenario the stale name \<open>table_9\<close> stays.
\<close>

theorem removing_of_objects_raises_witness:
  "objects kitchen \<noteq> [] \<and>
   removing_of_objects kitchen \<lparr>group_names = [''hsrb'', ''table_9''], calls = []\<rparr> =
     (Inl NameError, \<lparr>group_names = [''hsrb'', ''table_9''], calls = [GetGroupNames]\<rparr>)"
  using removing_of_objects_raises [of kitchen "\<lparr>group_names = [''hsrb'', ''table_9''], calls = []\<rparr>"]
  by (simp add: kitchen_robot)

text \<open>
  Claim C9. Whatever the URDF file of the object contains, the message that
  \<^verbatim>\<open>make_world_body\<close> returns has the empty string as its URDF.
\<close>

theorem make_world_body_urdf_empty:
  "files e (obj_path object) = Some contents \<Longrightarrow>
     make_world_body e object = Inr \<lparr>body_type = Some URDF_BODY, urdf = ''''\<rparr>"
  by (simp add: make_world_body_def)

text \<open>
  The file of the cup is not empty; the message is.
\<close>

theorem make_world_body_urdf_empty_witness:
  "files kitchen (obj_path cup) = Some ''<cup/>'' \<and>
   make_world_body kitchen cup = Inr \<lparr>body_type = Some URDF_BODY, urdf = ''''\<rparr>"
proof -
  have f: "files kitchen (obj_path cup) = Some ''<cup/>''"
    by (simp add: kitchen_def cup_def)
  from f make_world_body_urdf_empty [OF f] show ?thesis by simp
qed


lemma adding_loop_calls:
  "adding_loop e gs objs g = (r, g') \<Longrightarrow>
     \<exists>new. calls g' = calls g @ new \<and> filter is_collision_call new = []"
proof (induction objs arbitrary: g)
  case Nil
  then show ?case by simp
next
  case (Cons x objs)
  show ?case
  proof (cases "Some x = robot e \<or> giskard_name x \<in> set gs")
    case True
    with Cons.prems have "adding_loop e gs objs g = (r, g')" by (auto split: if_splits)
    from Cons.IH [OF this] show ?thesis .
  next
    case False
    obtain res g1 where sp: "spawn_object e x g = (res, g1)" by (cases "spawn_object e x g")
    show ?thesis
    proof (cases res)
      case (Inl err)
      with sp False Cons.prems have "g' = g" by (auto dest: spawn_object_fail)
      then show ?thesis by simp
    next
      case (Inr u)
      with sp False Cons.prems have loop: "adding_loop e gs objs g1 = (r, g')" by auto
      from sp Inr obtain c where c: "calls g1 = calls g @ [c]" "mutation_of c = Some (Spawned (giskard_name x))"
        by (auto dest: spawn_object_ok(2))
      from c(2) have nc: "\<not> is_collision_call c" by (cases c) simp_all
      from Cons.IH [OF loop] obtain new where new: "calls g' = calls g1 @ new" "filter is_collision_call new = []"
        by blast
      have "calls g' = calls g @ (c # new)" using c(1) new(1) by simp
      moreover have "filter is_collision_call (c # new) = []" using nc new(2) by simp
      ultimately show ?thesis by blast
    qed
  qed
qed

lemma sync_worlds_calls:
  assumes "sync_worlds e g = (r, g1)"
  shows "\<exists>new. calls g1 = calls g @ new \<and> filter is_collision_call new = []"
proof (cases "stale e (group_names g)")
  case True
  with assms have "adding_loop e [robot_description_name e] (objects e)
             (g\<lparr>group_names := [robot_description_name e],
                calls := calls g @ [GetGroupNames, ClearWorld, GetGroupNames]\<rparr>) = (r, g1)"
    by (simp add: sync_worlds_unfold)
  from adding_loop_calls [OF this] obtain new where
    "calls g1 = calls g @ ([GetGroupNames, ClearWorld, GetGroupNames] @ new)" "filter is_collision_call new = []"
    by auto
  then have "calls g1 = calls g @ ([GetGroupNames, ClearWorld, GetGroupNames] @ new) \<and>
             filter is_collision_call ([GetGroupNames, ClearWorld, GetGroupNames] @ new) = []"
    by simp
  then show ?thesis by blast
next
  case False
  with assms have "adding_loop e (group_names g) (objects e)
             (g\<lparr>calls := calls g @ [GetGroupNames, GetGroupNames]\<rparr>) = (r, g1)"
    by (simp add: sync_worlds_unfold)
  from adding_loop_calls [OF this] obtain new where
    "calls g1 = calls g @ ([GetGroupNames, GetGroupNames] @ new)" "filter is_collision_call new = []"
    by auto
  then have "calls g1 = calls g @ ([GetGroupNames, GetGroupNames] @ new) \<and>
             filter is_collision_call ([GetGroupNames, GetGroupNames] @ new) = []"
    by simp
  then show ?thesis by blast
qed

lemma submit_eq:
  "submit e c g = (Inr (planner e (calls g @ [c])), g\<lparr>calls := calls g @ [c, PlanAndExecute]\<rparr>)"
  by (simp add: submit_def plan_and_execute_def send_def)

lemma achieve_unfold:
  "achieve e gl g =
     (case sync_worlds e g of
        (Inl err, g1) \<Rightarrow> (Inl err, g1)
      | (Inr u, g1) \<Rightarrow>
          (case goal_message gl of
             Inl err \<Rightarrow> (Inl err, g1)
           | Inr c \<Rightarrow> (Inr (planner e (calls g1 @ [c])), g1\<lparr>calls := calls g1 @ [c, PlanAndExecute]\<rparr>)))"
  by (cases gl)
     (auto simp: achieve_joint_goal_def achieve_cartesian_goal_def achieve_straight_cartesian_goal_def
        achieve_translation_goal_def achieve_straight_translation_goal_def achieve_rotation_goal_def
        achieve_align_planes_goal_def achieve_open_container_goal_def achieve_close_container_goal_def
        submit_eq split: prod.splits sum.splits)

lemma goal_message_no_collision: "goal_message gl = Inr c \<Longrightarrow> \<not> is_collision_call c"
  by (cases gl) (auto split: sum.splits simp: map_sum_def)

text \<open>
  Claim C2, as amended. Every goal function runs \<^verbatim>\<open>sync_worlds\<close> first, then hands its
  goal description to the planner, then calls \<^verbatim>\<open>plan_and_execute\<close> and returns its
  result; it returns whenever the reconciliation returns and the goal description can be
  built. No goal function applies a collision policy: among the calls it makes there is
  none. The policy is a call of its own that the caller makes beforehand, so it reaches
  the planner before the reconciliation does, as in the real-mode module for joint moves.
\<close>

theorem achieve_sequence:
  "(\<forall>g1 c. sync_worlds e g = (Inr (), g1) \<longrightarrow> goal_message gl = Inr c \<longrightarrow>
      achieve e gl g =
        (Inr (planner e (calls g1 @ [c])), g1\<lparr>calls := calls g1 @ [c, PlanAndExecute]\<rparr>)) \<and>
   (\<forall>res g'. achieve e gl g = (Inr res, g') \<longrightarrow>
      (\<exists>g1 c. sync_worlds e g = (Inr (), g1) \<and> goal_message gl = Inr c \<and>
         new_calls g g' = new_calls g g1 @ [c, PlanAndExecute] \<and>
         res = planner e (calls g1 @ [c])) \<and>
      filter is_collision_call (new_calls g g') = []) \<and>
   (\<forall>g'. HSRBMoveJointsReal_execute e d g = (Inr (), g') \<longrightarrow>
      (\<exists>g1. sync_worlds e (avoid_all_collisions g) = (Inr (), g1) \<and>
         new_calls g g' =
           AvoidAllCollisions # new_calls (avoid_all_collisions g) g1 @
           [SetJointGoal (dict_update [] (zip (names d) (positions d))), PlanAndExecute]))"
proof (intro conjI allI impI)
  fix g1 c
  assume "sync_worlds e g = (Inr (), g1)" "goal_message gl = Inr c"
  then show "achieve e gl g =
        (Inr (planner e (calls g1 @ [c])), g1\<lparr>calls := calls g1 @ [c, PlanAndExecute]\<rparr>)"
    by (simp add: achieve_unfold)
next
  fix res g'
  assume a: "achieve e gl g = (Inr res, g')"
  obtain r g1 where s: "sync_worlds e g = (r, g1)" by (cases "sync_worlds e g")
  from a s obtain c where r: "r = Inr ()" and c: "goal_message gl = Inr c"
    and g': "g' = g1\<lparr>calls := calls g1 @ [c, PlanAndExecute]\<rparr>"
    and res: "res = planner e (calls g1 @ [c])"
    by (auto simp: achieve_unfold split: sum.splits)
  from sync_worlds_calls [OF s] obtain new where new: "calls g1 = calls g @ new"
    "filter is_collision_call new = []" by blast
  have n1: "new_calls g g1 = new" using new(1) by (simp add: new_calls_def)
  have n2: "new_calls g g' = new @ [c, PlanAndExecute]" using new(1) g' by (simp add: new_calls_def)
  from s r c n1 n2 res
  show "\<exists>g1 c. sync_worlds e g = (Inr (), g1) \<and> goal_message gl = Inr c \<and>
         new_calls g g' = new_calls g g1 @ [c, PlanAndExecute] \<and>
         res = planner e (calls g1 @ [c])"
    by auto
  from n2 new(2) goal_message_no_collision [OF c]
  show "filter is_collision_call (new_calls g g') = []" by simp
next
  fix g'
  assume a: "HSRBMoveJointsReal_execute e d g = (Inr (), g')"
  let ?g0 = "avoid_all_collisions g"
  let ?J = "dict_update [] (zip (names d) (positions d))"
  obtain r g1 where s: "sync_worlds e ?g0 = (r, g1)" by (cases "sync_worlds e ?g0")
  from a s have r: "r = Inr ()" and g': "g' = g1\<lparr>calls := calls g1 @ [SetJointGoal ?J, PlanAndExecute]\<rparr>"
    by (auto simp: HSRBMoveJointsReal_execute_def achieve_joint_goal_def submit_eq Let_def
             split: sum.splits prod.splits)
  from sync_worlds_calls [OF s] obtain new where new: "calls g1 = calls ?g0 @ new" by blast
  have c0: "calls ?g0 = calls g @ [AvoidAllCollisions]"
    by (simp add: avoid_all_collisions_def send_def)
  have n1: "new_calls ?g0 g1 = new" using new by (simp add: new_calls_def)
  have "new_calls g g' = AvoidAllCollisions # new @ [SetJointGoal ?J, PlanAndExecute]"
    using new c0 g' by (simp add: new_calls_def)
  with s r n1
  show "\<exists>g1. sync_worlds e ?g0 = (Inr (), g1) \<and>
         new_calls g g' = AvoidAllCollisions # new_calls ?g0 g1 @ [SetJointGoal ?J, PlanAndExecute]"
    by auto
qed


lemma kitchen_sync_robot_only:
  "sync_worlds kitchen \<lparr>group_names = [''hsrb''], calls = cs\<rparr> =
     (Inr (), \<lparr>group_names = [''hsrb'', ''cup_1'', ''bowl_2''],
               calls = cs @ [GetGroupNames, GetGroupNames,
                             AddUrdf ''cup_1'' ''<cup/>'' cup_pose, AddUrdf ''bowl_2'' ''<bowl/>'' bowl_pose]\<rparr>)"
proof -
  have "\<not> stale kitchen [''hsrb'']"
    by (simp add: stale_def kitchen_robot)
  then show ?thesis
    by (simp add: sync_worlds_unfold kitchen_robot kitchen_distinct giskard_name_cup giskard_name_bowl
          spawn_cup spawn_bowl add_urdf_def)
qed

text \<open>
  Opening a container in the scenario, with only the robot known remotely.
\<close>

theorem achieve_sequence_witness:
  "sync_worlds kitchen \<lparr>group_names = [''hsrb''], calls = []\<rparr> =
     (Inr (), \<lparr>group_names = [''hsrb'', ''cup_1'', ''bowl_2''],
               calls = [GetGroupNames, GetGroupNames,
                        AddUrdf ''cup_1'' ''<cup/>'' cup_pose, AddUrdf ''bowl_2'' ''<bowl/>'' bowl_pose]\<rparr>) \<and>
   goal_message (OpenContainerGoal ''hand_palm_link'' ''drawer_handle'') =
     Inr (SetOpenContainerGoal ''hand_palm_link'' ''drawer_handle'') \<and>
   achieve kitchen (OpenContainerGoal ''hand_palm_link'' ''drawer_handle'')
       \<lparr>group_names = [''hsrb''], calls = []\<rparr> =
     (Inr (MoveResult [0] []),
      \<lparr>group_names = [''hsrb'', ''cup_1'', ''bowl_2''],
       calls = [GetGroupNames, GetGroupNames,
                AddUrdf ''cup_1'' ''<cup/>'' cup_pose, AddUrdf ''bowl_2'' ''<bowl/>'' bowl_pose,
                SetOpenContainerGoal ''hand_palm_link'' ''drawer_handle'', PlanAndExecute]\<rparr>)"
proof -
  have s: "sync_worlds kitchen \<lparr>group_names = [''hsrb''], calls = []\<rparr> =
     (Inr (), \<lparr>group_names = [''hsrb'', ''cup_1'', ''bowl_2''],
               calls = [GetGroupNames, GetGroupNames,
                        AddUrdf ''cup_1'' ''<cup/>'' cup_pose, AddUrdf ''bowl_2'' ''<bowl/>'' bowl_pose]\<rparr>)"
    using kitchen_sync_robot_only [of "[]"] by simp
  have m: "goal_message (OpenContainerGoal ''hand_palm_link'' ''drawer_handle'') =
     Inr (SetOpenContainerGoal ''hand_palm_link'' ''drawer_handle'')"
    by simp
  from achieve_sequence [of kitchen "\<lparr>group_names = [''hsrb''], calls = []\<rparr>"
      "OpenContainerGoal ''hand_palm_link'' ''drawer_handle''"] s m
  show ?thesis by (simp add: kitchen_def)
qed

text \<open>
  Claim C2 as stated fails: the joint goal function alone makes no collision call between
  the reconciliation and the goal, and the module that avoids all collisions does so
  before the reconciliation starts.
\<close>

theorem achieve_policy_counterexample:
  "snd (achieve_joint_goal kitchen [(''arm_lift_joint'', 1)] \<lparr>group_names = [''hsrb''], calls = []\<rparr>) =
     \<lparr>group_names = [''hsrb'', ''cup_1'', ''bowl_2''],
      calls = [GetGroupNames, GetGroupNames,
               AddUrdf ''cup_1'' ''<cup/>'' cup_pose, AddUrdf ''bowl_2'' ''<bowl/>'' bowl_pose,
               SetJointGoal [(''arm_lift_joint'', 1)], PlanAndExecute]\<rparr> \<and>
   snd (HSRBMoveJointsReal_execute kitchen \<lparr>names = [''arm_lift_joint''], positions = [1]\<rparr>
          \<lparr>group_names = [''hsrb''], calls = []\<rparr>) =
     \<lparr>group_names = [''hsrb'', ''cup_1'', ''bowl_2''],
      calls = [AvoidAllCollisions, GetGroupNames, GetGroupNames,
               AddUrdf ''cup_1'' ''<cup/>'' cup_pose, AddUrdf ''bowl_2'' ''<bowl/>'' bowl_pose,
               SetJointGoal [(''arm_lift_joint'', 1)], PlanAndExecute]\<rparr>"
  by (simp add: achieve_joint_goal_def HSRBMoveJointsReal_execute_def avoid_all_collisions_def send_def
        kitchen_sync_robot_only submit_eq dict_update_def)


lemmas manager_defs =
  HSRBManager_navigate_def HSRBManager_pick_up_def HSRBManager_place_def HSRBManager_looking_def
  HSRBManager_detecting_def HSRBManager_move_tcp_def HSRBManager_move_arm_joints_def
  HSRBManager_world_state_detecting_def HSRBManager_move_joints_def HSRBManager_move_gripper_def
  HSRBManager_open_def HSRBManager_close_def

lemma acquire_registered:
  "t = ''simulated'' \<or> t = ''real'' \<Longrightarrow> passed_lock (acquire m c t) = Some (capability_lock m c)"
  by (cases c) (auto simp: manager_defs passed_lock_def ProcessModule_def)

lemma HSRBManager_init_locks:
  "HSRBManager_init h = (m, h') \<Longrightarrow>
     map (capability_lock m) all_capabilities = map Lock [h ..< h + 12] \<and> h' = h + 12"
  by (auto simp: HSRBManager_init_def new_Lock_def all_capabilities_def upt_rec [of h] upt_rec [of "Suc _"])

lemma all_capabilities_complete: "c \<in> set all_capabilities"
  by (cases c) (simp_all add: all_capabilities_def)

lemma distinct_map_inj: "distinct (map f xs) \<Longrightarrow> x \<in> set xs \<Longrightarrow> y \<in> set xs \<Longrightarrow> f x = f y \<Longrightarrow> x = y"
  by (meson distinct_map inj_on_def)

text \<open>
  Claim C6. The constructor of the manager makes twelve locks that are pairwise different,
  one for each of the twelve capabilities. In simulated and in real mode alike, a lookup
  passes on the lock of its own capability, and two lookups pass on the same lock only
  when they are for the same capability.
\<close>

theorem HSRBManager_one_lock_per_capability:
  assumes init: "HSRBManager_init h = (m, h')"
  shows "length all_capabilities = 12 \<and> set all_capabilities = UNIV \<and>
         distinct (map (capability_lock m) all_capabilities) \<and>
         (\<forall>c1 c2. \<forall>t1 \<in> {''simulated'', ''real''}. \<forall>t2 \<in> {''simulated'', ''real''}.
            passed_lock (acquire m c1 t1) = Some (capability_lock m c1) \<and>
            (passed_lock (acquire m c1 t1) = passed_lock (acquire m c2 t2) \<longleftrightarrow> c1 = c2))"
proof -
  have len: "length all_capabilities = 12" by (simp add: all_capabilities_def)
  have univ: "set all_capabilities = UNIV" using all_capabilities_complete by auto
  from HSRBManager_init_locks [OF init]
  have "map (capability_lock m) all_capabilities = map Lock [h ..< h + 12]" by simp
  moreover have "distinct (map Lock [h ..< h + 12])" by (simp add: distinct_map inj_on_def)
  ultimately have dist: "distinct (map (capability_lock m) all_capabilities)" by simp
  have inj: "capability_lock m c1 = capability_lock m c2 \<longleftrightarrow> c1 = c2" for c1 c2
    using distinct_map_inj [OF dist all_capabilities_complete all_capabilities_complete] by auto
  have "passed_lock (acquire m c1 t1) = Some (capability_lock m c1) \<and>
        (passed_lock (acquire m c1 t1) = passed_lock (acquire m c2 t2) \<longleftrightarrow> c1 = c2)"
    if "t1 \<in> {''simulated'', ''real''}" "t2 \<in> {''simulated'', ''real''}" for c1 c2 t1 t2
  proof -
    from that have "passed_lock (acquire m c1 t1) = Some (capability_lock m c1)"
      "passed_lock (acquire m c2 t2) = Some (capability_lock m c2)"
      by (auto intro: acquire_registered)
    with inj show ?thesis by simp
  qed
  with len univ dist show ?thesis by blast
qed

text \<open>
  The first manager ever built: navigation has lock 0 in both modes, closing has lock 11.
\<close>

theorem HSRBManager_one_lock_per_capability_witness:
  "HSRBManager_init 0 = (example_manager, 12) \<and>
   passed_lock (acquire example_manager Navigate ''simulated'') = Some (Lock 0) \<and>
   passed_lock (acquire example_manager Navigate ''real'') = Some (Lock 0) \<and>
   passed_lock (acquire example_manager Close ''simulated'') = Some (Lock 11) \<and>
   passed_lock (acquire example_manager Navigate ''real'') \<noteq>
     passed_lock (acquire example_manager Close ''simulated'')"
proof -
  have i: "HSRBManager_init 0 = (example_manager, 12)"
    by (simp add: HSRBManager_init_def new_Lock_def example_manager_def eval_nat_numeral)
  note T = HSRBManager_one_lock_per_capability [OF i, THEN conjunct2, THEN conjunct2, THEN conjunct2]
  from T [THEN spec, of Navigate, THEN spec, of Close]
  have "passed_lock (acquire example_manager Navigate ''simulated'') =
          Some (capability_lock example_manager Navigate)"
    and "passed_lock (acquire example_manager Navigate ''real'') =
          Some (capability_lock example_manager Navigate)"
    and "passed_lock (acquire example_manager Navigate ''real'') \<noteq>
          passed_lock (acquire example_manager Close ''simulated'')"
    by (auto simp del: acquire.simps capability_lock.simps)
  moreover from T [THEN spec, of Close, THEN spec, of Close]
  have "passed_lock (acquire example_manager Close ''simulated'') =
          Some (capability_lock example_manager Close)"
    by (simp del: acquire.simps capability_lock.simps)
  moreover have "capability_lock example_manager Navigate = Lock 0"
    "capability_lock example_manager Close = Lock 11"
    by (simp_all add: example_manager_def)
  ultimately show ?thesis using i by (simp del: acquire.simps)
qed

text \<open>
  Claim C4, as amended. When no branch of a lookup method matches the execution mode, the
  method returns \<^verbatim>\<open>None\<close> and raises nothing: so do all twelve lookups of the HSRB
  manager for a mode that is neither simulated nor real, and so does the lookup for
  looking of the Donbot manager for every mode but simulated.
\<close>

theorem unregistered_lookup_returns_None:
  "(t \<noteq> ''simulated'' \<and> t \<noteq> ''real'' \<longrightarrow> acquire m c t = Inr None) \<and>
   (x \<noteq> SIMULATED \<longrightarrow> DonbotManager_looking d x = Inr None)"
  by (cases c) (simp_all add: manager_defs DonbotManager_looking_def)

text \<open>
  A mode that is neither simulated nor real, and the Donbot in real mode.
\<close>

theorem unregistered_lookup_returns_None_witness:
  "''semi_real'' \<noteq> ''simulated'' \<and> ''semi_real'' \<noteq> ''real'' \<and>
   acquire example_manager Navigate ''semi_real'' = Inr None \<and>
   REAL \<noteq> SIMULATED \<and> DonbotManager_looking (DonbotManager_init (Lock 12)) REAL = Inr None"
  using unregistered_lookup_returns_None
    [of "''semi_real''" example_manager Navigate REAL "DonbotManager_init (Lock 12)"]
  by simp

text \<open>
  Claim C4 as stated fails: the Donbot manager has no implementation of looking for real
  mode, and the lookup returns \<^verbatim>\<open>None\<close> as an ordinary result.
\<close>

theorem unregistered_lookup_counterexample:
  "DonbotManager_looking (DonbotManager_init (Lock 12)) REAL = Inr None \<and>
   HSRBManager_navigate example_manager ''semi_real'' = Inr None"
  by (simp add: DonbotManager_looking_def HSRBManager_navigate_def)

text \<open>
  Claim C7, as amended. For every capability of the HSRB manager but world-state
  detection, simulated and real mode select two different implementations. World-state
  detection selects the same implementation in both modes. The Donbot manager's lookup
  for looking selects an implementation in simulated mode and none in real mode.
\<close>

theorem implementations_per_capability:
  "(c \<noteq> WorldStateDetecting \<longrightarrow>
      (\<exists>a b. selected_class (acquire m c ''simulated'') = Some a \<and>
             selected_class (acquire m c ''real'') = Some b \<and> a \<noteq> b)) \<and>
   selected_class (acquire m WorldStateDetecting ''simulated'') = Some HSRBWorldStateDetecting \<and>
   selected_class (acquire m WorldStateDetecting ''real'') = Some HSRBWorldStateDetecting \<and>
   selected_class (DonbotManager_looking d SIMULATED) = Some DonbotMoveHead \<and>
   selected_class (DonbotManager_looking d REAL) = None"
  by (cases c) (simp_all add: manager_defs DonbotManager_looking_def selected_class_def ProcessModule_def)

text \<open>
  Navigation has two implementations, world-state detection one.
\<close>

theorem implementations_per_capability_witness:
  "Navigate \<noteq> WorldStateDetecting \<and>
   selected_class (acquire example_manager Navigate ''simulated'') = Some HSRBNavigation \<and>
   selected_class (acquire example_manager Navigate ''real'') = Some HSRBNavigationReal \<and>
   selected_class (acquire example_manager WorldStateDetecting ''real'') =
     Some HSRBWorldStateDetecting"
  using implementations_per_capability [of Navigate example_manager "DonbotManager_init (Lock 12)"]
  by (simp add: HSRBManager_navigate_def selected_class_def ProcessModule_def)

text \<open>
  Claim C7 as stated fails: the two modes give the same process module for world-state
  detection, and the Donbot has nothing for looking in real mode.
\<close>

theorem implementations_counterexample:
  "HSRBManager_world_state_detecting example_manager ''simulated'' =
     HSRBManager_world_state_detecting example_manager ''real'' \<and>
   selected_class (DonbotManager_looking (DonbotManager_init (Lock 12)) REAL) = None"
  by (simp add: HSRBManager_world_state_detecting_def DonbotManager_looking_def selected_class_def)

lemma detecting_loop_robot: "detecting_loop visible (Some r) objs = Inr (find (visible r) objs)"
  by (induction objs) simp_all

lemma filter_first_match:
  "\<forall>y \<in> set ys. \<not> Q y \<Longrightarrow> Q obj \<Longrightarrow> filter Q (ys @ obj # zs) = obj # filter Q zs"
  by (induction ys) simp_all

lemma find_first_match:
  "\<forall>y \<in> set ys. \<not> (Q y \<and> P y) \<Longrightarrow> Q obj \<Longrightarrow> P obj \<Longrightarrow>
     find P (filter Q (ys @ obj # zs)) = Some obj"
  by (induction ys) auto

text \<open>
  Claim C5, as amended. With a robot loaded, field-of-view detection returns the first
  object of the requested type, in the order of the World Model, that is visible; it
  returns \<^verbatim>\<open>None\<close>, an ordinary result and no failure, when no object of that type is
  visible, and also, robot or not, when the World Model has no object of that type. With
  no robot loaded and an object of the type present it raises AttributeError. World-state
  detection returns the first object of the requested type, in the order of the World
  Model; when there is none it raises IndexError. A typed not-found failure is returned in
  none of these cases.
\<close>

theorem detection_without_match:
  "(robot e = Some r \<longrightarrow> (\<forall>obj \<in> set (objects e). obj_type obj = t \<longrightarrow> \<not> visible r obj) \<longrightarrow>
      HSRBDetecting_execute visible e t = Inr None) \<and>
   ((\<forall>obj \<in> set (objects e). obj_type obj \<noteq> t) \<longrightarrow>
      HSRBDetecting_execute visible e t = Inr None) \<and>
   (robot e = Some r \<longrightarrow> objects e = ys @ obj # zs \<longrightarrow> obj_type obj = t \<longrightarrow> visible r obj \<longrightarrow>
      (\<forall>y \<in> set ys. \<not> (obj_type y = t \<and> visible r y)) \<longrightarrow>
      HSRBDetecting_execute visible e t = Inr (Some obj)) \<and>
   (robot e = None \<longrightarrow> (\<exists>obj \<in> set (objects e). obj_type obj = t) \<longrightarrow>
      HSRBDetecting_execute visible e t = Inl AttributeError) \<and>
   (objects e = ys @ obj # zs \<longrightarrow> obj_type obj = t \<longrightarrow> (\<forall>y \<in> set ys. obj_type y \<noteq> t) \<longrightarrow>
      HSRBWorldStateDetecting_execute e t = Inr (Some obj)) \<and>
   ((\<forall>obj \<in> set (objects e). obj_type obj \<noteq> t) \<longrightarrow>
      HSRBWorldStateDetecting_execute e t = Inl IndexError)"
proof (intro conjI impI)
  assume "robot e = Some r" "\<forall>obj \<in> set (objects e). obj_type obj = t \<longrightarrow> \<not> visible r obj"
  then show "HSRBDetecting_execute visible e t = Inr None"
    by (simp add: HSRBDetecting_execute_def get_objects_by_type_def detecting_loop_robot find_None_iff)
next
  assume "\<forall>obj \<in> set (objects e). obj_type obj \<noteq> t"
  then have "filter (\<lambda>obj. obj_type obj = t) (objects e) = []"
    by (simp add: filter_empty_conv)
  then show "HSRBDetecting_execute visible e t = Inr None"
    by (simp add: HSRBDetecting_execute_def get_objects_by_type_def)
next
  assume r: "robot e = Some r" and o: "objects e = ys @ obj # zs"
    and m: "obj_type obj = t" "visible r obj"
    and f: "\<forall>y \<in> set ys. \<not> (obj_type y = t \<and> visible r y)"
  have "find (visible r) (filter (\<lambda>obj. obj_type obj = t) (ys @ obj # zs)) = Some obj"
    using f m by (rule find_first_match)
  then show "HSRBDetecting_execute visible e t = Inr (Some obj)"
    by (simp only: HSRBDetecting_execute_def get_objects_by_type_def r o detecting_loop_robot)
next
  assume n: "robot e = None" and "\<exists>obj \<in> set (objects e). obj_type obj = t"
  then have "filter (\<lambda>obj. obj_type obj = t) (objects e) \<noteq> []"
    by (auto simp: filter_empty_conv)
  then obtain x xs where "filter (\<lambda>obj. obj_type obj = t) (objects e) = x # xs"
    by (cases "filter (\<lambda>obj. obj_type obj = t) (objects e)") auto
  with n show "HSRBDetecting_execute visible e t = Inl AttributeError"
    by (simp add: HSRBDetecting_execute_def get_objects_by_type_def)
next
  assume o: "objects e = ys @ obj # zs" and m: "obj_type obj = t"
    and f: "\<forall>y \<in> set ys. obj_type y \<noteq> t"
  have "filter (\<lambda>obj. obj_type obj = t) (ys @ obj # zs) = obj # filter (\<lambda>obj. obj_type obj = t) zs"
    using f m by (rule filter_first_match)
  then show "HSRBWorldStateDetecting_execute e t = Inr (Some obj)"
    by (simp add: HSRBWorldStateDetecting_execute_def o del: filter_append filter.simps)
next
  assume "\<forall>obj \<in> set (objects e). obj_type obj \<noteq> t"
  then have "filter (\<lambda>obj. obj_type obj = t) (objects e) = []"
    by (simp add: filter_empty_conv)
  then show "HSRBWorldStateDetecting_execute e t = Inl IndexError"
    by (simp add: HSRBWorldStateDetecting_execute_def)
qed

lemma kitchen_types: "obj_type hsrb = ROBOT" "obj_type cup = JEROEN_CUP" "obj_type bowl = BOWL"
  by (simp_all add: hsrb_def cup_def bowl_def)

lemma bowl_not_cup: "bowl \<noteq> cup"
  by (simp add: cup_def bowl_def)

text \<open>
  In the scenario only the cup is visible: no bowl is detected in view, the cup is, and the
  bowl is found in the world state.
\<close>

theorem detection_without_match_witness:
  "HSRBDetecting_execute (\<lambda>r obj. obj = cup) kitchen BOWL = Inr None \<and>
   HSRBDetecting_execute (\<lambda>r obj. obj = cup) kitchen JEROEN_CUP = Inr (Some cup) \<and>
   HSRBWorldStateDetecting_execute kitchen BOWL = Inr (Some bowl)"
proof -
  note T = detection_without_match [where e = kitchen and r = hsrb and visible = "\<lambda>r obj. obj = cup"]
  have a: "\<forall>obj \<in> set (objects kitchen). obj_type obj = BOWL \<longrightarrow> \<not> (\<lambda>r obj. obj = cup) hsrb obj"
    by (auto simp: kitchen_robot kitchen_types bowl_not_cup)
  from T [where t = BOWL, THEN conjunct1] a
  have n: "HSRBDetecting_execute (\<lambda>r obj. obj = cup) kitchen BOWL = Inr None"
    by (simp add: kitchen_robot)
  have b: "\<forall>y \<in> set [hsrb]. \<not> (obj_type y = JEROEN_CUP \<and> (\<lambda>r obj. obj = cup) hsrb y)"
    by (simp add: kitchen_types)
  from T [where t = JEROEN_CUP and ys = "[hsrb]" and obj = cup and zs = "[bowl]",
          THEN conjunct2, THEN conjunct2, THEN conjunct1] b
  have c: "HSRBDetecting_execute (\<lambda>r obj. obj = cup) kitchen JEROEN_CUP = Inr (Some cup)"
    by (simp add: kitchen_robot kitchen_types)
  have d: "\<forall>y \<in> set [hsrb, cup]. obj_type y \<noteq> BOWL"
    by (simp add: kitchen_types)
  from T [where t = BOWL and ys = "[hsrb, cup]" and obj = bowl and zs = "[]",
          THEN conjunct2, THEN conjunct2, THEN conjunct2, THEN conjunct2, THEN conjunct1] d
  have w: "HSRBWorldStateDetecting_execute kitchen BOWL = Inr (Some bowl)"
    by (simp add: kitchen_robot kitchen_types)
  from n c w show ?thesis by blast
qed

text \<open>
  Claim C5 as stated fails: with nothing visible the detection in view returns
  \<^verbatim>\<open>None\<close>, and world-state detection of a type the world does not hold raises
  IndexError.
\<close>

theorem detection_counterexample:
  "HSRBDetecting_execute (\<lambda>r obj. False) kitchen BOWL = Inr None \<and>
   HSRBWorldStateDetecting_execute kitchen GENERIC_OBJECT = Inl IndexError"
  by (simp add: HSRBDetecting_execute_def HSRBWorldStateDetecting_execute_def get_objects_by_type_def
        kitchen_robot kitchen_types)



lemma dict_update_Nil: "distinct (map fst other) \<Longrightarrow> dict_update [] other = other"
proof -
  have "distinct (map fst (d @ other)) \<Longrightarrow> dict_update d other = d @ other" for d
  proof (induction other arbitrary: d)
    case Nil
    then show ?case by (simp add: dict_update_def)
  next
    case (Cons p other)
    obtain k v where p: "p = (k, v)" by (cases p)
    from Cons.prems have "k \<notin> fst ` set d" by (auto simp: p)
    then have u: "AList.update k v d = d @ [(k, v)]"
      by (induction d) auto
    from Cons.prems have "distinct (map fst ((d @ [(k, v)]) @ other))" by (simp add: p)
    from Cons.IH [OF this] show ?case by (simp add: dict_update_def p u)
  qed
  from this [of "[]"] show "distinct (map fst other) \<Longrightarrow> dict_update [] other = other" by simp
qed




end
